theory Spec2Isabelle
  imports Main "HOL-Library.Word"
begin

section \<open>A heterogeneous fixed-size tuple (Tuple.h)\<close>

text \<open>
  Tuple.h is a family of C++ templates. The embedding keeps the two levels of the source
  apart: template arguments (type packs, index sequences, positions) are ordinary HOL
  data, and an instantiation that the compiler rejects is the left injection of a sum
  type, as is a read or a write with undefined behaviour. Whatever a well-defined program
  computes is the right injection.

  The element types themselves are supplied by the user of the templates, so their
  operations (construction from an argument, default construction, assignment, \<open>==\<close>) are
  a parameter of the model, the record \<open>element_ops\<close>, over an arbitrary universe \<open>'v\<close> of
  values. Objects outside a tuple, to which a member of reference type is bound, live in
  a memory.
\<close>

subsection \<open>Types as template arguments\<close>

text \<open>
  A type as a template argument: an unqualified type, its const/volatile qualifiers, and
  whether it is a reference. Element types are named types (\<open>int\<close>, a class, ...),
  pointers, arrays and functions; the last two matter for \<open>std::decay_t\<close>. Classes are
  named only, so no two distinct names are related by inheritance.
\<close>

datatype utype =
    Named string
  | PointerTo qtype
  | ArrayOf qtype nat
  | FunctionOf cpp_type "cpp_type list"
and qtype =
    Q bool bool utype \<comment> \<open>const, volatile, the unqualified type\<close>
and cpp_type =
    Object qtype \<comment> \<open>not a reference\<close>
  | LvalueRef qtype
  | RvalueRef qtype

abbreviation plain :: "utype \<Rightarrow> cpp_type" where
  "plain u \<equiv> Object (Q False False u)"

fun is_reference :: "cpp_type \<Rightarrow> bool" where
  "is_reference (Object q) = False"
| "is_reference (LvalueRef q) = True"
| "is_reference (RvalueRef q) = True"

fun unqualified :: "qtype \<Rightarrow> utype" where
  "unqualified (Q c v u) = u"

fun is_const :: "qtype \<Rightarrow> bool" where
  "is_const (Q c v u) = c"

text \<open>\<open>std::remove_reference_t\<close> and \<open>std::decay_t\<close> of the standard library
  (\<open><type_traits>\<close>): after removing the reference, an array becomes a pointer to its
  element, a function becomes a pointer to itself, anything else loses its top-level
  const and volatile. Const and volatile written on an array type qualify its elements,
  and on a function type they are ignored.\<close>

fun remove_reference :: "cpp_type \<Rightarrow> qtype" where
  "remove_reference (Object q) = q"
| "remove_reference (LvalueRef q) = q"
| "remove_reference (RvalueRef q) = q"



text \<open>The type to which a reference of type \<open>T\<close>, or an object of type \<open>T\<close>, refers,
  without its qualifiers.\<close>

definition referred :: "cpp_type \<Rightarrow> utype" where
  "referred T = unqualified (remove_reference T)"

text \<open>How a use of the templates can fail: the compiler rejects an instantiation, or the
  program runs into undefined behaviour.\<close>

datatype failure =
    IncompleteType \<comment> \<open>a template that is declared but has no definition for these arguments\<close>
  | NotABase \<comment> \<open>\<open>static_cast\<close> to a class that is not a base\<close>
  | AmbiguousBase \<comment> \<open>\<open>static_cast\<close> to a base that occurs more than once\<close>
  | ArityMismatch \<comment> \<open>\<open>sizeof...(Us) == sizeof...(Ts)\<close> fails: no constructor is viable\<close>
  | NotConstructible \<comment> \<open>\<open>std::is_constructible_v<T, U&&>\<close> fails\<close>
  | NotDefaultConstructible \<comment> \<open>the defaulted default constructor is deleted\<close>
  | NotAssignable \<comment> \<open>no assignment through this reference, as when it refers to a const\<close>
  | NoEqualityOperator \<comment> \<open>the element type has no \<open>==\<close>\<close>
  | NoMatchingFunction \<comment> \<open>template argument deduction fails\<close>
  | PackLengthMismatch \<comment> \<open>packs of different lengths expanded together\<close>
  | IndeterminateValue \<comment> \<open>at run time: a read of a member that was never initialised\<close>
  | DanglingReference \<comment> \<open>at run time: an access through a reference whose object is gone\<close>

fun rejected :: "failure \<Rightarrow> bool" where
  "rejected IndeterminateValue = False"
| "rejected DanglingReference = False"
| "rejected e = True"

subsection \<open>Arguments and memory\<close>

text \<open>
  A function argument bound to a forwarding reference \<open>U&&\<close>: the type of the argument
  expression, its value category together with the object it designates (an lvalue or an
  xvalue designates an object in memory, a prvalue is a temporary that is gone when the
  full expression ends), and the value it has when the call is made. \<open>deduce\<close> is the
  \<open>U\<close> that template argument
  deduction finds: \<open>X&\<close> for an lvalue of type \<open>X\<close>, \<open>X\<close> for an rvalue.
  \<open>std::forward<U>\<close> hands the argument on with the same type and value category, so it
  is the identity here. Constructing from an xvalue may move from its object; what that
  leaves in the source object is not modelled, since nothing in Tuple.h reads it again.
\<close>

type_synonym addr = nat
type_synonym 'v memory = "addr \<Rightarrow> 'v option"

datatype designation = Lvalue addr | Xvalue addr | Prvalue

fun designated :: "designation \<Rightarrow> addr option" where
  "designated (Lvalue p) = Some p"
| "designated (Xvalue p) = Some p"
| "designated Prvalue = None"

fun is_lvalue :: "designation \<Rightarrow> bool" where
  "is_lvalue (Lvalue p) = True"
| "is_lvalue d = False"

record 'v argument =
  arg_type :: qtype
  arg_expr :: designation
  arg_value :: 'v

definition deduce :: "'v argument \<Rightarrow> cpp_type" where
  "deduce a = (if is_lvalue (arg_expr a) then LvalueRef (arg_type a) else Object (arg_type a))"


subsection \<open>The element types' own operations\<close>

text \<open>
  \<open>is_constructible ops T U\<close> is \<open>std::is_constructible_v<T, U&&>\<close>, and
  \<open>construct ops T a\<close> is the object of type \<open>T\<close> that the member initialiser
  \<open>value(std::forward<U>(v))\<close> produces from the argument \<open>a\<close>.
  \<open>default_init ops T\<close> is the state that default-initialisation gives a \<open>T\<close>: \<open>None\<close>
  when it performs no initialisation, as for a scalar, and the result of the default
  constructor otherwise; \<open>zero_init ops T\<close> is the zero-initialised \<open>T\<close>.
  \<open>is_assignable ops T U\<close> is \<open>std::is_assignable_v<T&, U&&>\<close>, and \<open>assign ops T a\<close> is
  the value that an object of the type \<open>T\<close> refers to holds after the argument \<open>a\<close> is
  assigned to it. \<open>equals ops T\<close> is \<open>operator==\<close> on two \<open>const T&\<close>.
\<close>

record 'v element_ops =
  is_constructible :: "cpp_type \<Rightarrow> cpp_type \<Rightarrow> bool"
  construct :: "cpp_type \<Rightarrow> 'v argument \<Rightarrow> 'v"
  is_default_constructible :: "cpp_type \<Rightarrow> bool"
  default_init :: "cpp_type \<Rightarrow> 'v option"
  zero_init :: "cpp_type \<Rightarrow> 'v"
  is_assignable :: "cpp_type \<Rightarrow> cpp_type \<Rightarrow> bool"
  assign :: "cpp_type \<Rightarrow> 'v argument \<Rightarrow> 'v"
  has_equality :: "cpp_type \<Rightarrow> bool"
  equals :: "cpp_type \<Rightarrow> 'v \<Rightarrow> 'v \<Rightarrow> bool"

text \<open>An argument already has the type \<open>T\<close>, up to reference, const and volatile.\<close>

definition same_type :: "cpp_type \<Rightarrow> 'v argument \<Rightarrow> bool" where
  "same_type T a = (referred T = unqualified (arg_type a))"


definition assign_preserving :: "'v element_ops \<Rightarrow> bool" where
  "assign_preserving ops = (\<forall>T a. same_type T a \<longrightarrow> assign ops T a = arg_value a)"

subsection \<open>tuple_leaf\<close>

text \<open>
  \<open>tuple_leaf<I, T>\<close>: the holder of the \<open>I\<close>-th element, of type \<open>T\<close>. The template
  arguments are part of the class's identity, so the model keeps them beside the member
  \<open>T value\<close>. The member holds a value, or was left uninitialised, or, when \<open>T\<close> is a
  reference type, is bound to an object in memory or to a temporary that is gone.
\<close>

datatype 'v member = Held 'v | Indeterminate | Bound addr | Dangling

record 'v tuple_leaf =
  leaf_I :: nat
  leaf_T :: cpp_type
  leaf_value :: "'v member"

text \<open>
  \<open>constexpr tuple_leaf() = default;\<close> The defaulted constructor default-initialises
  \<open>T value\<close>; it is deleted when \<open>T\<close> is a reference or has no default constructor. The
  source has no other code for it, so what the member holds depends on the form of the
  initialisation at the call site: \<open>tuple<Ts...> t;\<close> default-initialises and nothing
  more, \<open>tuple<Ts...> t{}\<close> value-initialises, which zero-initialises the object first
  because no default constructor in Tuple.h is user-provided.
\<close>

datatype initialisation = DefaultInit | ValueInit

definition default_member :: "'v element_ops \<Rightarrow> initialisation \<Rightarrow> cpp_type \<Rightarrow> 'v member" where
  "default_member ops init T =
     (case default_init ops T of
        Some d \<Rightarrow> Held d
      | None \<Rightarrow> (case init of DefaultInit \<Rightarrow> Indeterminate | ValueInit \<Rightarrow> Held (zero_init ops T)))"



text \<open>
  \<open>explicit tuple_leaf(U&& v) : value(std::forward<U>(v))\<close>, enabled when
  \<open>std::is_constructible_v<T, U&&>\<close>. A member of reference type is bound to the object
  that the argument designates when the argument has the referred type; otherwise it is
  bound to a temporary, which does not outlive the initialisation.
\<close>

definition init_member :: "'v element_ops \<Rightarrow> cpp_type \<Rightarrow> 'v argument \<Rightarrow> 'v member" where
  "init_member ops T a =
     (if is_reference T
      then (case designated (arg_expr a) of
              Some p \<Rightarrow> if same_type T a then Bound p else Dangling
            | None \<Rightarrow> Dangling)
      else Held (construct ops T a))"

definition tuple_leaf_ctor :: "'v element_ops \<Rightarrow> nat \<Rightarrow> cpp_type \<Rightarrow> 'v argument \<Rightarrow> failure + 'v tuple_leaf" where
  "tuple_leaf_ctor ops I T v =
     (if is_constructible ops T (deduce v)
      then Inr \<lparr>leaf_I = I, leaf_T = T, leaf_value = init_member ops T v\<rparr>
      else Inl NotConstructible)"

subsection \<open>tuple_impl and tuple\<close>

text \<open>
  \<open>tuple_impl<std::index_sequence<Is...>, Ts...>\<close> derives from \<open>tuple_leaf<Is, Ts>...\<close>:
  an object of it is the list of its base-class subobjects, in declaration order.
  \<open>std::index_sequence_for<Ts...>\<close> is \<open>0, 1, ..., sizeof...(Ts) - 1\<close>.
\<close>

type_synonym index_sequence = "nat list"
type_synonym 'v tuple_impl = "'v tuple_leaf list"

definition index_sequence_for :: "cpp_type list \<Rightarrow> index_sequence" where
  "index_sequence_for Ts = [0 ..< length Ts]"


text \<open>The mem-initialiser list \<open>tuple_leaf<Is, Ts>(std::forward<Us>(args))...\<close>: the three
  packs are expanded together.\<close>

fun init_leaves :: "'v element_ops \<Rightarrow> index_sequence \<Rightarrow> cpp_type list \<Rightarrow> 'v argument list \<Rightarrow> failure + 'v tuple_impl" where
  "init_leaves ops [] [] [] = Inr []"
| "init_leaves ops (I # Is) (T # Ts) (a # args) =
     (case tuple_leaf_ctor ops I T a of
        Inl e \<Rightarrow> Inl e
      | Inr l \<Rightarrow> (case init_leaves ops Is Ts args of
                   Inl e \<Rightarrow> Inl e
                 | Inr ls \<Rightarrow> Inr (l # ls)))"
| "init_leaves ops _ _ _ = Inl PackLengthMismatch"

text \<open>\<open>explicit tuple_impl(Us&&... args)\<close>, enabled when
  \<open>sizeof...(Us) == sizeof...(Ts)\<close>.\<close>

definition tuple_impl_ctor :: "'v element_ops \<Rightarrow> index_sequence \<Rightarrow> cpp_type list \<Rightarrow> 'v argument list \<Rightarrow> failure + 'v tuple_impl" where
  "tuple_impl_ctor ops Is Ts args =
     (if length args = length Ts then init_leaves ops Is Ts args else Inl ArityMismatch)"

text \<open>
  \<open>tuple<Ts...>\<close> derives from \<open>tuple_impl<std::index_sequence_for<Ts...>, Ts...>\<close>, which
  it calls \<open>base_type\<close>, and inherits its constructors. An object of it is its pack
  \<open>Ts\<close> (its static type) and its \<open>base_type\<close> subobject.
\<close>

record 'v tuple =
  elem_types :: "cpp_type list"
  base_type :: "'v tuple_impl"

text \<open>\<open>tuple<Ts...>(args...)\<close> through the inherited constructor template, and
  \<open>tuple<Ts...>\<close> built from no argument through the defaulted default constructors.
  Copying, moving and assigning a whole tuple are the defaulted memberwise operations;
  they are not modelled, and no argument here is itself a tuple of the type being built.\<close>

definition tuple_ctor :: "'v element_ops \<Rightarrow> cpp_type list \<Rightarrow> 'v argument list \<Rightarrow> failure + 'v tuple" where
  "tuple_ctor ops Ts args =
     (case tuple_impl_ctor ops (index_sequence_for Ts) Ts args of
        Inl e \<Rightarrow> Inl e
      | Inr b \<Rightarrow> Inr \<lparr>elem_types = Ts, base_type = b\<rparr>)"


text \<open>Every object of type \<open>tuple<Ts...>\<close> has exactly the bases that its class
  definition lists: \<open>tuple_leaf<0, T0>\<close>, \<open>tuple_leaf<1, T1>\<close>, ...\<close>

definition tuple_bases :: "cpp_type list \<Rightarrow> (nat \<times> cpp_type) list" where
  "tuple_bases Ts = zip (index_sequence_for Ts) Ts"

definition well_typed :: "'v tuple \<Rightarrow> bool" where
  "well_typed t = (map (\<lambda>l. (leaf_I l, leaf_T l)) (base_type t) = tuple_bases (elem_types t))"


fun is_bound :: "'v member \<Rightarrow> bool" where
  "is_bound (Bound p) = True"
| "is_bound m = False"

definition well_bound :: "'v tuple \<Rightarrow> bool" where
  "well_bound t = (\<forall>l \<in> set (base_type t). is_bound (leaf_value l) \<longrightarrow> is_reference (leaf_T l))"

subsection \<open>tuple_element\<close>

text \<open>
  \<open>tuple_element<I, tuple<Ts...>>\<close>. The primary template is only declared. The
  specialisation for \<open><0, tuple<T, Ts...>>\<close> is the more specialised one and defines
  \<open>type = T\<close>; the one for \<open><I, tuple<T, Ts...>>\<close> derives from
  \<open>tuple_element<I - 1, tuple<Ts...>>\<close>.
\<close>

fun tuple_element :: "nat \<Rightarrow> cpp_type list \<Rightarrow> failure + cpp_type" where
  "tuple_element I [] = Inl IncompleteType"
| "tuple_element 0 (T # Ts) = Inr T"
| "tuple_element (Suc I) (T # Ts) = tuple_element I Ts"

subsection \<open>get\<close>

text \<open>
  \<open>static_cast<tuple_leaf<I, T>&>(t)\<close>: the conversion to a base class. It is well
  formed when \<open>tuple_leaf<I, T>\<close> is a base of the object's class exactly once, and it
  yields that base-class subobject, here its place among the bases.
\<close>

definition static_cast_leaf :: "nat \<Rightarrow> cpp_type \<Rightarrow> 'v tuple \<Rightarrow> failure + nat" where
  "static_cast_leaf I T t =
     (case filter (\<lambda>k. leaf_I (base_type t ! k) = I \<and> leaf_T (base_type t ! k) = T)
             [0 ..< length (base_type t)] of
        [] \<Rightarrow> Inl NotABase
      | [k] \<Rightarrow> Inr k
      | _ \<Rightarrow> Inl AmbiguousBase)"

text \<open>
  The result of \<open>get\<close> is a reference \<open>tuple_element_t<I, tuple<Ts...>>&\<close> to the member
  \<open>value\<close> of a leaf: its type and the leaf it is bound to. The four overloads of \<open>get\<close>
  (for \<open>&\<close>, \<open>const&\<close>, \<open>&&\<close>, \<open>const&&\<close>) have the same body up to these qualifiers, and
  so have the four of \<open>tuple_leaf::get\<close>; one definition stands for them.
\<close>

record element_ref =
  ref_type :: cpp_type
  ref_leaf :: nat

definition get :: "nat \<Rightarrow> 'v tuple \<Rightarrow> failure + element_ref" where
  "get I t =
     (case tuple_element I (elem_types t) of
        Inl e \<Rightarrow> Inl e
      | Inr T \<Rightarrow> (case static_cast_leaf I T t of
                   Inl e \<Rightarrow> Inl e
                 | Inr k \<Rightarrow> Inr \<lparr>ref_type = T, ref_leaf = k\<rparr>))"

text \<open>
  Reading through the reference. When the member is itself a reference, \<open>return value;\<close>
  in \<open>tuple_leaf::get\<close> names the object it is bound to, so the read goes to memory.
  A member that was never initialised, and a reference whose object is gone, cannot be
  read.
\<close>

definition read_member :: "'v memory \<Rightarrow> 'v member \<Rightarrow> failure + 'v" where
  "read_member mem m =
     (case m of
        Held x \<Rightarrow> Inr x
      | Indeterminate \<Rightarrow> Inl IndeterminateValue
      | Bound p \<Rightarrow> (case mem p of None \<Rightarrow> Inl DanglingReference | Some x \<Rightarrow> Inr x)
      | Dangling \<Rightarrow> Inl DanglingReference)"

definition load :: "'v memory \<Rightarrow> 'v tuple \<Rightarrow> element_ref \<Rightarrow> failure + 'v" where
  "load mem t r = read_member mem (leaf_value (base_type t ! ref_leaf r))"

text \<open>
  Assigning the argument \<open>a\<close> through the reference that \<open>get\<close> returned for a tuple
  that is not const: \<open>get<I>(t) = a\<close>. The assignment is the element type's own; it is
  rejected when the reference does not admit it, as when the declared type is const.
  It changes the member of that one leaf, or, when the member is a reference, the object
  in memory to which the member is bound.
\<close>

definition set_member :: "'v tuple \<Rightarrow> nat \<Rightarrow> 'v member \<Rightarrow> 'v tuple" where
  "set_member t k m = t\<lparr>base_type := (base_type t)[k := (base_type t ! k)\<lparr>leaf_value := m\<rparr>]\<rparr>"

definition store :: "'v element_ops \<Rightarrow> 'v memory \<Rightarrow> 'v tuple \<Rightarrow> element_ref \<Rightarrow> 'v argument \<Rightarrow>
    failure + ('v memory \<times> 'v tuple)" where
  "store ops mem t r a =
     (if \<not> is_assignable ops (ref_type r) (deduce a) then Inl NotAssignable
      else (case leaf_value (base_type t ! ref_leaf r) of
              Held old \<Rightarrow> Inr (mem, set_member t (ref_leaf r) (Held (assign ops (ref_type r) a)))
            | Indeterminate \<Rightarrow> Inr (mem, set_member t (ref_leaf r) (Held (assign ops (ref_type r) a)))
            | Bound p \<Rightarrow> (case mem p of
                             None \<Rightarrow> Inl DanglingReference
                           | Some old \<Rightarrow> Inr (mem(p \<mapsto> assign ops (ref_type r) a), t))
            | Dangling \<Rightarrow> Inl DanglingReference))"

text \<open>Reading position \<open>I\<close>: \<open>get<I>(t)\<close> used as a value.\<close>

definition get_value :: "'v memory \<Rightarrow> nat \<Rightarrow> 'v tuple \<Rightarrow> failure + 'v" where
  "get_value mem I t = (case get I t of Inl e \<Rightarrow> Inl e | Inr r \<Rightarrow> load mem t r)"

text \<open>Writing position \<open>I\<close>: \<open>get<I>(t) = a\<close>.\<close>

definition set_value :: "'v element_ops \<Rightarrow> 'v memory \<Rightarrow> nat \<Rightarrow> 'v argument \<Rightarrow> 'v tuple \<Rightarrow>
    failure + ('v memory \<times> 'v tuple)" where
  "set_value ops mem I a t = (case get I t of Inl e \<Rightarrow> Inl e | Inr r \<Rightarrow> store ops mem t r a)"

text \<open>A write followed by a read: \<open>get<i>(t) = a;\<close> and then \<open>get<j>(t)\<close>.\<close>

definition read_after :: "failure + ('v memory \<times> 'v tuple) \<Rightarrow> nat \<Rightarrow> failure + 'v" where
  "read_after w j = (case w of Inl e \<Rightarrow> Inl e | Inr (mem', t') \<Rightarrow> get_value mem' j t')"

subsection \<open>tuple_size, make_tuple, operator==\<close>

text \<open>\<open>tuple_size<tuple<Ts...>>\<close> is \<open>std::integral_constant<std::size_t, sizeof...(Ts)>\<close>.
  It takes the type alone.\<close>

definition tuple_size :: "cpp_type list \<Rightarrow> nat" where
  "tuple_size Ts = length Ts"






subsection \<open>The spec's reading of a decayed type\<close>

text \<open>
  The spec describes the decayed type as the argument's type with its reference, const
  and volatile qualifiers removed. \<open>remove_cvref\<close> is that description, to be compared
  with \<open>decay\<close> above; the two differ on arrays and functions, which \<open>std::decay_t\<close> turns
  into pointers.
\<close>

fun strip_cv :: "utype \<Rightarrow> utype" where
  "strip_cv (ArrayOf (Q c v u) n) = ArrayOf (Q False False (strip_cv u)) n"
| "strip_cv u = u"

definition remove_cvref :: "cpp_type \<Rightarrow> cpp_type" where
  "remove_cvref T = plain (strip_cv (referred T))"


subsection \<open>Closed forms of the constructors\<close>


definition default_leaf_of :: "'v element_ops \<Rightarrow> initialisation \<Rightarrow> nat \<times> cpp_type \<Rightarrow> 'v tuple_leaf" where
  "default_leaf_of ops init =
     (\<lambda>(I, T). \<lparr>leaf_I = I, leaf_T = T, leaf_value = default_member ops init T\<rparr>)"

subsection \<open>Built-in element types\<close>

text \<open>
  To run the templates on concrete inputs, \<open>builtin_ops\<close> gives the operations of a
  fragment of the language's built-in types: \<open>int\<close> (32 bits), \<open>unsigned char\<close> (8 bits)
  and \<open>bool\<close>, references to them, and pointers obtained from arrays.
  A conversion among the three arithmetic types goes through \<open>int\<close>, which holds every
  value of the other two: to \<open>unsigned char\<close> it keeps the low 8 bits, to \<open>bool\<close> it
  tests for non-zero. Copying within one type keeps the value. An array lvalue converts
  to the pointer to its first element, here the address of the array. A reference binds
  to an lvalue of its type with no fewer qualifiers, a const lvalue reference and an
  rvalue reference also to an rvalue. Assignment needs a referred type that is not
  const. \<open>==\<close> compares after promotion to \<open>int\<close>. Default-initialisation of a scalar
  performs no initialisation, zero-initialisation gives zero, and a const scalar member
  has no defaulted default constructor. Whatever else the language allows is outside the
  fragment and is reported as not constructible, not assignable or not comparable.
  \<open>double\<close> and plain \<open>char\<close>, which main.cpp uses, are left out: floating point and the
  signedness of \<open>char\<close> are not modelled.
\<close>

datatype scalar = IntV "32 word" | UCharV "8 word" | BoolV bool | PtrV addr | ArrV "scalar list"

fun to_int :: "scalar \<Rightarrow> 32 word" where
  "to_int (IntV w) = w"
| "to_int (UCharV c) = ucast c"
| "to_int (BoolV b) = (if b then 1 else 0)"
| "to_int x = 0"

fun arithmetic :: "utype \<Rightarrow> bool" where
  "arithmetic (Named n) = (n = ''int'' \<or> n = ''unsigned char'' \<or> n = ''bool'')"
| "arithmetic u = False"

fun convert :: "utype \<Rightarrow> scalar \<Rightarrow> scalar" where
  "convert (Named n) x =
     (if n = ''int'' then IntV (to_int x)
      else if n = ''unsigned char'' then UCharV (ucast (to_int x))
      else if n = ''bool'' then BoolV (to_int x \<noteq> 0)
      else x)"
| "convert u x = x"

fun is_volatile :: "qtype \<Rightarrow> bool" where
  "is_volatile (Q c v u) = v"

fun is_pointer :: "utype \<Rightarrow> bool" where
  "is_pointer (PointerTo e) = True"
| "is_pointer u = False"

text \<open>The first type has no qualifier that the second lacks.\<close>

definition cv_at_most :: "qtype \<Rightarrow> qtype \<Rightarrow> bool" where
  "cv_at_most q q' = ((is_const q \<longrightarrow> is_const q') \<and> (is_volatile q \<longrightarrow> is_volatile q'))"

fun pointer_from_array :: "utype \<Rightarrow> qtype \<Rightarrow> bool" where
  "pointer_from_array (PointerTo pe) (Q c v (ArrayOf (Q ec ev u) n)) =
     (unqualified pe = u \<and> cv_at_most (Q (c \<or> ec) (v \<or> ev) u) pe)"
| "pointer_from_array t q = False"

fun builtin_constructible :: "cpp_type \<Rightarrow> cpp_type \<Rightarrow> bool" where
  "builtin_constructible (Object q) U =
     (arithmetic (unqualified q) \<and> arithmetic (referred U) \<or>
      is_reference U \<and> pointer_from_array (unqualified q) (remove_reference U))"
| "builtin_constructible (LvalueRef q) (LvalueRef q') =
     (arithmetic (unqualified q) \<and> unqualified q' = unqualified q \<and> cv_at_most q' q)"
| "builtin_constructible (LvalueRef q) (Object q') =
     (arithmetic (unqualified q) \<and> unqualified q' = unqualified q \<and> cv_at_most q' q \<and>
      is_const q \<and> \<not> is_volatile q)"
| "builtin_constructible (RvalueRef q) (Object q') =
     (arithmetic (unqualified q) \<and> unqualified q' = unqualified q \<and> cv_at_most q' q)"
| "builtin_constructible T U = False"

definition builtin_construct :: "cpp_type \<Rightarrow> scalar argument \<Rightarrow> scalar" where
  "builtin_construct T a =
     (if same_type T a then arg_value a
      else if is_pointer (referred T)
      then (case designated (arg_expr a) of Some p \<Rightarrow> PtrV p | None \<Rightarrow> arg_value a)
      else convert (referred T) (arg_value a))"

definition builtin_assign :: "cpp_type \<Rightarrow> scalar argument \<Rightarrow> scalar" where
  "builtin_assign T a =
     (if same_type T a then arg_value a else convert (referred T) (arg_value a))"

definition builtin_ops :: "scalar element_ops" where
  "builtin_ops =
     \<lparr>is_constructible = builtin_constructible,
      construct = builtin_construct,
      is_default_constructible =
        (\<lambda>T. \<not> is_reference T \<and> arithmetic (referred T) \<and> \<not> is_const (remove_reference T)),
      default_init = (\<lambda>T. None),
      zero_init = (\<lambda>T. convert (referred T) (IntV 0)),
      is_assignable =
        (\<lambda>T U. \<not> is_const (remove_reference T) \<and> arithmetic (referred T) \<and>
               arithmetic (referred U)),
      assign = builtin_assign,
      has_equality = (\<lambda>T. arithmetic (referred T)),
      equals = (\<lambda>T x y. to_int x = to_int y)\<rparr>"

abbreviation int_t :: cpp_type where "int_t \<equiv> plain (Named ''int'')"
abbreviation uchar_t :: cpp_type where "uchar_t \<equiv> plain (Named ''unsigned char'')"
abbreviation bool_t :: cpp_type where "bool_t \<equiv> plain (Named ''bool'')"
abbreviation const_int_t :: cpp_type where "const_int_t \<equiv> Object (Q True False (Named ''int''))"
abbreviation int_ref_t :: cpp_type where "int_ref_t \<equiv> LvalueRef (Q False False (Named ''int''))"
abbreviation int_ptr_t :: cpp_type where "int_ptr_t \<equiv> plain (PointerTo (Q False False (Named ''int'')))"
abbreviation int_array_t :: cpp_type where
  "int_array_t \<equiv> plain (ArrayOf (Q False False (Named ''int'')) 2)"

subsection \<open>Example inputs\<close>

text \<open>
  A memory with a \<open>const int\<close> holding 42 at address 0, an \<open>int x\<close> holding 5 at
  address 1 and an \<open>int arr[2]\<close> at address 2; prvalue and lvalue arguments; the
  arguments \<open>(42, 'a', 42)\<close> for a \<open>tuple<int, unsigned char, int>\<close> and the tuple they
  build; the same tuple with 10 at position 0; a \<open>tuple<int, unsigned char, bool>\<close>
  after \<open>t{}\<close> and after \<open>t;\<close>; the \<open>tuple<int&, int&> t{x, x}\<close>; the
  \<open>tuple<const int&> t{5}\<close>; the
  \<open>tuple<const int> t{5}\<close>; and the \<open>tuple<int*>\<close> that \<open>make_tuple(arr)\<close> builds.
\<close>

definition example_memory :: "scalar memory" where
  "example_memory =
     (\<lambda>p. if p = 0 then Some (IntV 42)
          else if p = 1 then Some (IntV 5)
          else if p = 2 then Some (ArrV [IntV 1, IntV 2])
          else None)"

definition prvalue :: "utype \<Rightarrow> 'v \<Rightarrow> 'v argument" where
  "prvalue u x = \<lparr>arg_type = Q False False u, arg_expr = Prvalue, arg_value = x\<rparr>"

definition lvalue :: "qtype \<Rightarrow> addr \<Rightarrow> 'v \<Rightarrow> 'v argument" where
  "lvalue q p x = \<lparr>arg_type = q, arg_expr = Lvalue p, arg_value = x\<rparr>"


definition example_tuple :: "scalar tuple" where
  "example_tuple =
     \<lparr>elem_types = [int_t, uchar_t, int_t],
      base_type = [\<lparr>leaf_I = 0, leaf_T = int_t, leaf_value = Held (IntV 42)\<rparr>,
                   \<lparr>leaf_I = 1, leaf_T = uchar_t, leaf_value = Held (UCharV 97)\<rparr>,
                   \<lparr>leaf_I = 2, leaf_T = int_t, leaf_value = Held (IntV 42)\<rparr>]\<rparr>"



definition uninitialised_tuple :: "scalar tuple" where
  "uninitialised_tuple =
     \<lparr>elem_types = [int_t, uchar_t, bool_t],
      base_type = [\<lparr>leaf_I = 0, leaf_T = int_t, leaf_value = Indeterminate\<rparr>,
                   \<lparr>leaf_I = 1, leaf_T = uchar_t, leaf_value = Indeterminate\<rparr>,
                   \<lparr>leaf_I = 2, leaf_T = bool_t, leaf_value = Indeterminate\<rparr>]\<rparr>"

definition alias_tuple :: "scalar tuple" where
  "alias_tuple =
     \<lparr>elem_types = [int_ref_t, int_ref_t],
      base_type = [\<lparr>leaf_I = 0, leaf_T = int_ref_t, leaf_value = Bound 1\<rparr>,
                   \<lparr>leaf_I = 1, leaf_T = int_ref_t, leaf_value = Bound 1\<rparr>]\<rparr>"


definition const_tuple :: "scalar tuple" where
  "const_tuple =
     \<lparr>elem_types = [const_int_t],
      base_type = [\<lparr>leaf_I = 0, leaf_T = const_int_t, leaf_value = Held (IntV 5)\<rparr>]\<rparr>"

definition pointer_tuple :: "scalar tuple" where
  "pointer_tuple =
     \<lparr>elem_types = [int_ptr_t],
      base_type = [\<lparr>leaf_I = 0, leaf_T = int_ptr_t, leaf_value = Held (PtrV 2)\<rparr>]\<rparr>"

definition narrowed_tuple :: "scalar tuple" where
  "narrowed_tuple =
     \<lparr>elem_types = [uchar_t],
      base_type = [\<lparr>leaf_I = 0, leaf_T = uchar_t, leaf_value = Held (UCharV 44)\<rparr>]\<rparr>"


definition array_arg :: "scalar argument" where
  "array_arg =
     lvalue (Q False False (ArrayOf (Q False False (Named ''int'')) 2)) 2 (ArrV [IntV 1, IntV 2])"

section \<open>Properties\<close>

lemma tuple_element_nth: "I < length Ts \<Longrightarrow> tuple_element I Ts = Inr (Ts ! I)"
  by (induction I Ts rule: tuple_element.induct) simp_all

lemma tuple_element_beyond: "length Ts \<le> I \<Longrightarrow> tuple_element I Ts = Inl IncompleteType"
  by (induction I Ts rule: tuple_element.induct) simp_all

lemma tuple_element_append: "tuple_element (length Us + I) (Us @ Ts) = tuple_element I Ts"
  by (induction Us) simp_all

lemma filter_upt_single:
  assumes "I < n" and "P I" and "\<And>k. k < n \<Longrightarrow> P k \<Longrightarrow> k = I"
  shows "filter P [0 ..< n] = [I]"
proof -
  have split: "[0 ..< n] = [0 ..< I] @ I # [Suc I ..< n]"
    using assms(1) by (metis less_imp_le_nat upt_add_eq_append upt_conv_Cons le0 le_add_diff_inverse)
  have "\<not> P k" if "k < n" and "k \<noteq> I" for k
    using assms(3) that by blast
  then have "filter P [0 ..< I] = []" and "filter P [Suc I ..< n] = []"
    using assms(1) by (simp_all add: filter_empty_conv)
  then show ?thesis using assms(2) by (simp add: split)
qed

lemma well_typed_length: "well_typed t \<Longrightarrow> length (base_type t) = length (elem_types t)"
proof -
  assume "well_typed t"
  then have "length (map (\<lambda>l. (leaf_I l, leaf_T l)) (base_type t)) = length (tuple_bases (elem_types t))"
    by (simp add: well_typed_def)
  then show ?thesis by (simp add: tuple_bases_def index_sequence_for_def)
qed

lemma well_typed_key:
  assumes "well_typed t" and "k < length (elem_types t)"
  shows "leaf_I (base_type t ! k) = k" and "leaf_T (base_type t ! k) = elem_types t ! k"
proof -
  have len: "k < length (base_type t)" using assms by (simp add: well_typed_length)
  have "map (\<lambda>l. (leaf_I l, leaf_T l)) (base_type t) ! k = tuple_bases (elem_types t) ! k"
    using assms(1) by (simp add: well_typed_def)
  then have "(leaf_I (base_type t ! k), leaf_T (base_type t ! k)) = (k, elem_types t ! k)"
    using len assms(2) by (simp add: tuple_bases_def index_sequence_for_def)
  then show "leaf_I (base_type t ! k) = k" and "leaf_T (base_type t ! k) = elem_types t ! k"
    by simp_all
qed

lemma static_cast_leaf_well_typed:
  assumes "well_typed t" and "I < length (elem_types t)"
  shows "static_cast_leaf I (elem_types t ! I) t = Inr I"
proof -
  let ?P = "\<lambda>k. leaf_I (base_type t ! k) = I \<and> leaf_T (base_type t ! k) = elem_types t ! I"
  have "filter ?P [0 ..< length (base_type t)] = [I]"
  proof (rule filter_upt_single)
    show "I < length (base_type t)" using assms by (simp add: well_typed_length)
    show "?P I" using assms by (simp add: well_typed_key)
    fix k assume "k < length (base_type t)" and "?P k"
    then show "k = I" using assms(1) by (simp add: well_typed_length well_typed_key)
  qed
  then show ?thesis by (simp add: static_cast_leaf_def)
qed

lemma get_well_typed:
  assumes "well_typed t" and "I < length (elem_types t)"
  shows "get I t = Inr \<lparr>ref_type = elem_types t ! I, ref_leaf = I\<rparr>"
  using assms by (simp add: get_def tuple_element_nth static_cast_leaf_well_typed)

lemma get_beyond: "length (elem_types t) \<le> I \<Longrightarrow> get I t = Inl IncompleteType"
  by (simp add: get_def tuple_element_beyond)

lemma get_value_well_typed:
  assumes "well_typed t" and "I < length (elem_types t)"
  shows "get_value mem I t = read_member mem (leaf_value (base_type t ! I))"
  using assms by (simp add: get_value_def get_well_typed load_def)









lemma set_member_elem_types: "elem_types (set_member t k m) = elem_types t"
  by (simp add: set_member_def)

lemma set_member_well_typed:
  assumes "well_typed t"
  shows "well_typed (set_member t k m)"
proof -
  let ?key = "\<lambda>l. (leaf_I l, leaf_T l)"
  let ?bs = "base_type t"
  have "map ?key (?bs[k := (?bs ! k)\<lparr>leaf_value := m\<rparr>]) = map ?key ?bs"
  proof (cases "k < length ?bs")
    case True
    then show ?thesis by (auto intro!: nth_equalityI simp: nth_list_update)
  next
    case False
    then have "?bs[k := (?bs ! k)\<lparr>leaf_value := m\<rparr>] = ?bs"
      by (intro list_update_beyond) simp
    then show ?thesis by simp
  qed
  then show ?thesis using assms by (simp add: well_typed_def set_member_def)
qed

lemma set_member_leaf_value:
  assumes "j < length (base_type t)"
  shows "leaf_value (base_type (set_member t k m) ! j) =
         (if j = k then m else leaf_value (base_type t ! j))"
  using assms by (simp add: set_member_def nth_list_update)

lemma set_value_well_typed:
  assumes "well_typed t" and "i < length (elem_types t)"
  shows "set_value ops mem i a t = store ops mem t \<lparr>ref_type = elem_types t ! i, ref_leaf = i\<rparr> a"
  using assms by (simp add: set_value_def get_well_typed)

lemma not_dangling:
  assumes "well_typed t" and "i < length (elem_types t)"
    and "get_value mem i t \<noteq> Inl DanglingReference"
  shows "leaf_value (base_type t ! i) \<noteq> Dangling"
    and "leaf_value (base_type t ! i) = Bound p \<Longrightarrow> \<exists>old. mem p = Some old"
  using assms by (auto simp: get_value_well_typed read_member_def split: option.splits)

text \<open>The memory and the tuple after a successful assignment at position \<open>i\<close>.\<close>

lemma set_value_result:
  assumes "well_typed t" and "i < length (elem_types t)"
    and "is_assignable ops (elem_types t ! i) (deduce a)"
    and "get_value mem i t \<noteq> Inl DanglingReference"
  shows "set_value ops mem i a t =
     Inr (case leaf_value (base_type t ! i) of
            Bound p \<Rightarrow> (mem(p \<mapsto> assign ops (elem_types t ! i) a), t)
          | Held old \<Rightarrow> (mem, set_member t i (Held (assign ops (elem_types t ! i) a)))
          | Indeterminate \<Rightarrow> (mem, set_member t i (Held (assign ops (elem_types t ! i) a)))
          | Dangling \<Rightarrow> (mem, t))"
proof (cases "leaf_value (base_type t ! i)")
  case (Bound p)
  with not_dangling(2) [OF assms(1,2,4)] obtain old where "mem p = Some old" by blast
  with Bound assms(1-3) show ?thesis by (simp add: set_value_well_typed store_def)
next
  case Dangling
  with not_dangling(1) [OF assms(1,2,4)] show ?thesis by simp
qed (use assms(1-3) in \<open>simp_all add: set_value_well_typed store_def\<close>)

lemma set_value_reads_back:
  assumes "well_typed t" and "i < length (elem_types t)"
    and "is_assignable ops (elem_types t ! i) (deduce a)"
    and "get_value mem i t \<noteq> Inl DanglingReference"
  shows "\<exists>mem' t'. set_value ops mem i a t = Inr (mem', t') \<and> well_typed t' \<and>
           elem_types t' = elem_types t \<and>
           get_value mem' i t' = Inr (assign ops (elem_types t ! i) a)"
proof -
  let ?x = "assign ops (elem_types t ! i) a"
  have len: "i < length (base_type t)" using assms(1,2) by (simp add: well_typed_length)
  note res = set_value_result [OF assms]
  show ?thesis
  proof (cases "leaf_value (base_type t ! i)")
    case (Bound p)
    then have "set_value ops mem i a t = Inr (mem(p \<mapsto> ?x), t)" using res by simp
    moreover have "get_value (mem(p \<mapsto> ?x)) i t = Inr ?x"
      using assms(1,2) Bound by (simp add: get_value_well_typed read_member_def)
    ultimately show ?thesis using assms(1) by blast
  next
    case Dangling
    with not_dangling(1) [OF assms(1,2,4)] show ?thesis by simp
  next
    case (Held old)
    let ?t' = "set_member t i (Held ?x)"
    have "set_value ops mem i a t = Inr (mem, ?t')" using res Held by simp
    moreover have "well_typed ?t'" using assms(1) by (rule set_member_well_typed)
    moreover have "get_value mem i ?t' = Inr ?x"
      using \<open>well_typed ?t'\<close> assms(2) len
      by (simp add: get_value_well_typed set_member_elem_types set_member_leaf_value
            read_member_def)
    ultimately show ?thesis by (auto simp: set_member_elem_types)
  next
    case Indeterminate
    let ?t' = "set_member t i (Held ?x)"
    have "set_value ops mem i a t = Inr (mem, ?t')" using res Indeterminate by simp
    moreover have "well_typed ?t'" using assms(1) by (rule set_member_well_typed)
    moreover have "get_value mem i ?t' = Inr ?x"
      using \<open>well_typed ?t'\<close> assms(2) len
      by (simp add: get_value_well_typed set_member_elem_types set_member_leaf_value
            read_member_def)
    ultimately show ?thesis by (auto simp: set_member_elem_types)
  qed
qed


















lemma default_tuple_well_bound:
  "well_bound \<lparr>elem_types = Ts, base_type = map (default_leaf_of ops init) (tuple_bases Ts)\<rparr>"
  by (auto simp: well_bound_def default_leaf_of_def default_member_def
        split: option.splits initialisation.splits)

subsection \<open>The example inputs\<close>


lemma builtin_assign_preserving: "assign_preserving builtin_ops"
  by (simp add: assign_preserving_def builtin_ops_def builtin_assign_def)

lemma example_tuple_well_typed: "well_typed example_tuple"
  by code_simp



lemma alias_tuple_well_typed: "well_typed alias_tuple"
  by code_simp

lemma example_tuple_types: "elem_types example_tuple = [int_t, uchar_t, int_t]"
  by (simp add: example_tuple_def)


lemma alias_tuple_types: "elem_types alias_tuple = [int_ref_t, int_ref_t]"
  by (simp add: alias_tuple_def)

lemma example_length: "length (elem_types example_tuple) = 3"
  by (simp add: example_tuple_def)




lemma const_tuple_ctor:
  "tuple_ctor builtin_ops [const_int_t] [prvalue (Named ''int'') (IntV 5)] = Inr const_tuple"
  by code_simp




lemma example_get_value:
  "get_value example_memory 0 example_tuple = Inr (IntV 42)"
  "get_value example_memory 1 example_tuple = Inr (UCharV 97)"
  "get_value example_memory 2 example_tuple = Inr (IntV 42)"
  by code_simp+


lemma alias_get_value:
  "get_value example_memory 0 alias_tuple = Inr (IntV 5)"
  "get_value example_memory 1 alias_tuple = Inr (IntV 5)"
  by code_simp+

lemma example_get:
  "get 0 example_tuple = Inr \<lparr>ref_type = int_t, ref_leaf = 0\<rparr>"
  "get 1 example_tuple = Inr \<lparr>ref_type = uchar_t, ref_leaf = 1\<rparr>"
  "get 2 example_tuple = Inr \<lparr>ref_type = int_t, ref_leaf = 2\<rparr>"
  by code_simp+




lemma const_get: "get 0 const_tuple = Inr \<lparr>ref_type = const_int_t, ref_leaf = 0\<rparr>"
  by code_simp

lemma const_set_value:
  "set_value builtin_ops example_memory 0 (prvalue (Named ''int'') (IntV 7)) const_tuple =
     Inl NotAssignable"
  by (simp add: set_value_def const_get store_def builtin_ops_def)

lemma example_facts:
  "get_value example_memory 0 narrowed_tuple = Inr (UCharV 44)"
  "\<not> equals builtin_ops uchar_t (UCharV 44) (IntV 300)"
  "elem_types pointer_tuple = [int_ptr_t]"
  "remove_cvref (deduce array_arg) = int_array_t"
  "get_value example_memory 0 pointer_tuple = Inr (PtrV 2)"
  "get_value example_memory 0 const_tuple = Inr (IntV 5)"
  "get_value example_memory 0 uninitialised_tuple = Inl IndeterminateValue"
  "read_after (set_value builtin_ops example_memory 0 (prvalue (Named ''int'') (IntV 7))
     alias_tuple) 1 = Inr (IntV 7)"
  "read_after (set_value builtin_ops example_memory 0 (prvalue (Named ''int'') (IntV 7))
     alias_tuple) 0 = Inr (IntV 7)"
  by code_simp+





section \<open>The claims\<close>

text \<open>
  Positions are natural numbers here; in the source they are \<open>std::size_t\<close> template
  arguments, and no claim depends on their width. A hypothesis \<open>well_typed t\<close> says that
  \<open>t\<close> is an object of its class \<open>tuple<Ts...>\<close>, and \<open>well_bound t\<close> that only members of
  reference type are bound to objects in memory; the constructors build such tuples and
  an assignment through \<open>get\<close> keeps them so (\<open>tuple_ctor_well_typed\<close>,
  \<open>default_tuple_well_typed\<close>, \<open>default_tuple_well_bound\<close>, \<open>set_value_preserves\<close>).
  A default-initialised tuple is one with automatic storage duration.
\<close>






text \<open>
  C3, out-of-range access. For a position \<open>I\<close> that is not below the arity,
  \<open>tuple_element\<close> and \<open>get\<close>, used for reading or for writing, are rejected by the
  compiler: the result is that rejection, never a value and never a failure at run time.
\<close>

theorem out_of_range_rejected:
  assumes "length (elem_types t) \<le> I"
  shows "tuple_element I (elem_types t) = Inl IncompleteType \<and>
         get I t = Inl IncompleteType \<and>
         get_value mem I t = Inl IncompleteType \<and>
         set_value ops mem I a t = Inl IncompleteType \<and>
         rejected IncompleteType"
  using assms by (simp add: tuple_element_beyond get_beyond get_value_def set_value_def)

theorem out_of_range_rejected_witness:
  "tuple_element 3 [int_t, uchar_t, int_t] = Inl IncompleteType \<and>
   get 3 example_tuple = Inl IncompleteType \<and>
   get_value example_memory 3 example_tuple = Inl IncompleteType \<and>
   set_value builtin_ops example_memory 3 (prvalue (Named ''int'') (IntV 7)) example_tuple =
     Inl IncompleteType"
  using out_of_range_rejected [of example_tuple 3 example_memory builtin_ops
      "prvalue (Named ''int'') (IntV 7)"]
  by (simp add: example_tuple_types)

text \<open>
  C4, element-type correctness. For a position \<open>I\<close> below the arity, \<open>tuple_element\<close>
  resolves to the \<open>I\<close>-th declared type; stripping leading types while the position
  decreases by as many leaves the result unchanged; and \<open>get\<close> on a tuple of that type
  yields a reference of exactly that type, bound to a leaf declared with that type.
  Nothing assumes the declared types to be distinct.
\<close>

theorem element_type_correct:
  assumes "I < length Ts"
  shows "tuple_element I Ts = Inr (Ts ! I) \<and>
         (\<forall>Us. tuple_element (length Us + I) (Us @ Ts) = Inr (Ts ! I)) \<and>
         (\<forall>t. well_typed t \<and> elem_types t = Ts \<longrightarrow>
            (\<exists>r. get I t = Inr r \<and> ref_type r = Ts ! I \<and>
                 leaf_T (base_type t ! ref_leaf r) = Ts ! I))"
  using assms
  by (auto simp: tuple_element_nth tuple_element_append get_well_typed well_typed_key)

theorem element_type_correct_witness:
  "tuple_element 2 [int_t, uchar_t, int_t] = Inr int_t \<and>
   tuple_element 3 [bool_t, int_t, uchar_t, int_t] = Inr int_t \<and>
   get 2 example_tuple = Inr \<lparr>ref_type = int_t, ref_leaf = 2\<rparr> \<and>
   leaf_T (base_type example_tuple ! 2) = int_t"
proof -
  let ?Ts = "[int_t, uchar_t, int_t]"
  have "(2::nat) < length ?Ts" by simp
  note main = element_type_correct [OF this]
  from main have "tuple_element 2 ?Ts = Inr (?Ts ! 2)" by blast
  moreover have "?Ts ! 2 = int_t" by simp
  ultimately have a: "tuple_element 2 ?Ts = Inr int_t" by (simp only:)
  from main have "tuple_element (length [bool_t] + 2) ([bool_t] @ ?Ts) = Inr (?Ts ! 2)"
    by blast
  then have b: "tuple_element 3 [bool_t, int_t, uchar_t, int_t] = Inr int_t"
    by (simp add: numeral_3_eq_3 numeral_2_eq_2)
  from main obtain r where "get 2 example_tuple = Inr r" and "ref_type r = ?Ts ! 2"
    and "leaf_T (base_type example_tuple ! ref_leaf r) = ?Ts ! 2"
    using example_tuple_well_typed example_tuple_types by blast
  with example_get(3)
  have "get 2 example_tuple = Inr \<lparr>ref_type = int_t, ref_leaf = 2\<rparr> \<and>
             leaf_T (base_type example_tuple ! 2) = int_t"
    by auto
  with a b show ?thesis by simp
qed

text \<open>
  C5, size correctness. \<open>tuple_size\<close> of a tuple type over \<open>K\<close> element types is \<open>K\<close>, for
  \<open>K = 0\<close>, \<open>K = 1\<close> and beyond; it is computed from the type sequence alone, and it is
  the number of positions at which \<open>tuple_element\<close> is defined.
\<close>

theorem size_correct:
  "tuple_size Ts = length Ts \<and> tuple_size [] = 0 \<and> tuple_size [T] = 1 \<and>
   (\<forall>I. (\<exists>U. tuple_element I Ts = Inr U) = (I < tuple_size Ts))"
proof -
  have "(\<exists>U. tuple_element I Ts = Inr U) = (I < length Ts)" for I
    by (cases "I < length Ts") (simp_all add: tuple_element_nth tuple_element_beyond)
  then show ?thesis by (simp add: tuple_size_def)
qed

theorem size_correct_witness:
  "tuple_size [int_t, uchar_t, int_t] = 3 \<and> tuple_size [] = 0 \<and> tuple_size [bool_t] = 1"
  using size_correct [of "[int_t, uchar_t, int_t]" bool_t] by simp




text \<open>
  C7, mutation through the accessor. The claim as stated covers every tuple and every
  position; it fails where the declared type is const, since \<open>get\<close> then returns a
  reference to const and the assignment is rejected. What holds: for a position \<open>i\<close>
  below the arity whose reference admits the assignment and does not dangle, assigning
  through \<open>get<i>(t)\<close> succeeds, and reading position \<open>i\<close> afterwards gives the value
  that the assignment stored; that value is \<open>v\<close> when \<open>v\<close> has the declared type and
  the element types' assignment preserves the value, as that of the built-in types does
  (\<open>builtin_assign_preserving\<close>).
\<close>

theorem mutation_through_accessor:
  assumes "well_typed t" and "i < length (elem_types t)"
    and "is_assignable ops (elem_types t ! i) (deduce a)"
    and "get_value mem i t \<noteq> Inl DanglingReference"
  shows "\<exists>mem' t'. set_value ops mem i a t = Inr (mem', t') \<and> well_typed t' \<and>
           elem_types t' = elem_types t \<and>
           get_value mem' i t' = Inr (assign ops (elem_types t ! i) a) \<and>
           (assign_preserving ops \<and> same_type (elem_types t ! i) a \<longrightarrow>
              get_value mem' i t' = Inr (arg_value a))"
proof -
  from set_value_reads_back [OF assms] obtain mem' t'
    where "set_value ops mem i a t = Inr (mem', t')" and "well_typed t'"
      and "elem_types t' = elem_types t"
      and "get_value mem' i t' = Inr (assign ops (elem_types t ! i) a)"
    by blast
  then show ?thesis by (auto simp: assign_preserving_def)
qed

text \<open>The counterexample to C7 as stated: for \<open>tuple<const int> t{5}\<close>, \<open>get<0>(t)\<close> is a
  \<open>const int&\<close>, \<open>get<0>(t) = 7\<close> does not compile, and the slot still reads 5.\<close>

theorem mutation_through_accessor_counterexample:
  "tuple_ctor builtin_ops [const_int_t] [prvalue (Named ''int'') (IntV 5)] = Inr const_tuple \<and>
   get 0 const_tuple = Inr \<lparr>ref_type = const_int_t, ref_leaf = 0\<rparr> \<and>
   set_value builtin_ops example_memory 0 (prvalue (Named ''int'') (IntV 7)) const_tuple =
     Inl NotAssignable \<and>
   get_value example_memory 0 const_tuple = Inr (IntV 5)"
  by (simp add: const_tuple_ctor const_get const_set_value example_facts)

theorem mutation_through_accessor_witness:
  "read_after (set_value builtin_ops example_memory 1
      (prvalue (Named ''unsigned char'') (UCharV 120)) example_tuple) 1 = Inr (UCharV 120) \<and>
   read_after (set_value builtin_ops example_memory 0
      (prvalue (Named ''int'') (IntV 7)) alias_tuple) 0 = Inr (IntV 7)"
proof
  let ?a = "prvalue (Named ''unsigned char'') (UCharV 120)"
  have i: "1 < length (elem_types example_tuple)" by (simp add: example_length)
  have ok: "is_assignable builtin_ops (elem_types example_tuple ! 1) (deduce ?a)"
    by (simp add: example_tuple_types builtin_ops_def prvalue_def deduce_def referred_def)
  have live: "get_value example_memory 1 example_tuple \<noteq> Inl DanglingReference"
    using example_get_value(2) by simp
  from mutation_through_accessor [OF example_tuple_well_typed i ok live]
  obtain mem' t' where w: "set_value builtin_ops example_memory 1 ?a example_tuple = Inr (mem', t')"
    and r: "assign_preserving builtin_ops \<and> same_type (elem_types example_tuple ! 1) ?a \<longrightarrow>
              get_value mem' 1 t' = Inr (arg_value ?a)"
    by blast
  have "same_type (elem_types example_tuple ! 1) ?a"
    by (simp add: example_tuple_types same_type_def referred_def prvalue_def)
  with r builtin_assign_preserving have "get_value mem' 1 t' = Inr (UCharV 120)"
    by (simp add: prvalue_def)
  with w show "read_after (set_value builtin_ops example_memory 1 ?a example_tuple) 1 =
      Inr (UCharV 120)"
    by (simp add: read_after_def)
next
  let ?a = "prvalue (Named ''int'') (IntV 7)"
  have i: "0 < length (elem_types alias_tuple)" by (simp add: alias_tuple_types)
  have ok: "is_assignable builtin_ops (elem_types alias_tuple ! 0) (deduce ?a)"
    by (simp add: alias_tuple_types builtin_ops_def prvalue_def deduce_def referred_def)
  have live: "get_value example_memory 0 alias_tuple \<noteq> Inl DanglingReference"
    by (simp add: alias_get_value)
  from mutation_through_accessor [OF alias_tuple_well_typed i ok live]
  obtain mem' t' where w: "set_value builtin_ops example_memory 0 ?a alias_tuple = Inr (mem', t')"
    and r: "assign_preserving builtin_ops \<and> same_type (elem_types alias_tuple ! 0) ?a \<longrightarrow>
              get_value mem' 0 t' = Inr (arg_value ?a)"
    by blast
  have "same_type (elem_types alias_tuple ! 0) ?a"
    by (simp add: alias_tuple_types same_type_def referred_def prvalue_def)
  with r builtin_assign_preserving have "get_value mem' 0 t' = Inr (IntV 7)"
    by (simp add: prvalue_def)
  with w show "read_after (set_value builtin_ops example_memory 0 ?a alias_tuple) 0 =
      Inr (IntV 7)"
    by (simp add: read_after_def)
qed









end
